theory Spec2Isabelle
  imports Complex_Main "HOL-Library.Char_ord" "HOL-Library.List_Lexorder"
begin

section \<open>The serving path: app/main.py\<close>

subsection \<open>Python floats\<close>

text \<open>
  A field of type \<open>float\<close> holds an IEEE double. A finite double is represented by the real
  number it denotes; the two infinities and NaN, which the JSON parser and the \<open>float\<close>
  fields accept, are constructors of their own. The handler only compares fields with the
  integer constants 45 and 18, which are doubles themselves, so the comparison of the
  double nearest to a decimal such as 39.1 gives what the comparison of the decimal gives.
\<close>

datatype pyfloat = Finite real | PosInf | NegInf | NaN

text \<open>Python's \<open>x > c\<close> for a float \<open>x\<close> and a finite constant \<open>c\<close>: false on NaN.\<close>

fun float_gt :: "pyfloat \<Rightarrow> real \<Rightarrow> bool" where
  "float_gt (Finite x) c = (c < x)"
| "float_gt PosInf c = True"
| "float_gt NegInf c = False"
| "float_gt NaN c = False"

subsection \<open>The request and response models\<close>

text \<open>\<open>class PenguinFeatures(BaseModel)\<close>: four required float fields and no other field.\<close>

record PenguinFeatures =
  bill_length_mm :: pyfloat
  bill_depth_mm :: pyfloat
  flipper_length_mm :: pyfloat
  body_mass_g :: pyfloat

text \<open>
  \<open>class PredictionResponse(BaseModel)\<close>. The confidence is one of the decimal literals
  of the handler, kept as the decimal it is written as.
\<close>

record PredictionResponse =
  species :: string
  confidence :: real
  message :: string

text \<open>
  The constructor call \<open>PredictionResponse(species=..., confidence=...)\<close>: the field
  \<open>message\<close> takes its declared default.
\<close>

definition new_PredictionResponse :: "string \<Rightarrow> real \<Rightarrow> PredictionResponse" where
  "new_PredictionResponse s c =
     \<lparr>species = s, confidence = c, message = ''Prediction successful''\<rparr>"

text \<open>
  What the client receives instead of a response body: status 422 from the validation of
  the request body, or the \<open>HTTPException\<close> of the handler with its status and detail.
\<close>

datatype http_error = RequestValidationError | HTTPException nat string

subsection \<open>The handler of POST /predict\<close>

text \<open>
  The body of the \<open>try\<close> block, lines 66 to 80. \<open>Inl ()\<close> stands for an exception raised
  inside the block; the comparisons and the constructor call raise none, so every branch
  ends in \<open>Inr\<close>.
\<close>

definition mock_prediction :: "PenguinFeatures \<Rightarrow> unit + PredictionResponse" where
  "mock_prediction features =
     (if float_gt (bill_length_mm features) 45 then
        Inr (new_PredictionResponse ''Gentoo'' 0.85)
      else if float_gt (bill_depth_mm features) 18 then
        Inr (new_PredictionResponse ''Adelie'' 0.78)
      else
        Inr (new_PredictionResponse ''Chinstrap'' 0.82))"

text \<open>
  \<open>predict_penguin_species\<close>: the \<open>try\<close> block with its \<open>except Exception\<close> clause, which
  turns any exception into \<open>HTTPException(status_code=500, detail="Prediction failed")\<close>.
\<close>

definition predict_penguin_species :: "PenguinFeatures \<Rightarrow> http_error + PredictionResponse" where
  "predict_penguin_species features =
     (case mock_prediction features of
        Inr response \<Rightarrow> Inr response
      | Inl e \<Rightarrow> Inl (HTTPException 500 ''Prediction failed''))"

subsection \<open>The request body\<close>

text \<open>
  The JSON object of a request, as the declaration \<open>features: PenguinFeatures\<close> makes the
  framework read it. A value under a key is classified by what a \<open>float\<close> field makes of
  it: \<open>Numeric x\<close> is a value read as the float \<open>x\<close>, \<open>NonNumeric s\<close> is any other value,
  such as the string "not_a_number" of \<open>test_predict_invalid_data_type\<close>, with its text.
\<close>

datatype jvalue = Numeric pyfloat | NonNumeric string

type_synonym body = "string \<rightharpoonup> jvalue"

definition float_field :: "body \<Rightarrow> string \<Rightarrow> pyfloat option" where
  "float_field b k = (case b k of Some (Numeric x) \<Rightarrow> Some x | _ \<Rightarrow> None)"

text \<open>
  Validation against \<open>PenguinFeatures\<close>: each declared field must be present and numeric
  (\<open>test_predict_missing_field\<close>, \<open>test_predict_invalid_data_type\<close>: status 422). The class
  sets no \<open>extra\<close> policy, so keys that are not declared fields are ignored: the object
  built holds the four declared fields only.
\<close>

definition parse_PenguinFeatures :: "body \<Rightarrow> http_error + PenguinFeatures" where
  "parse_PenguinFeatures b =
     (case float_field b ''bill_length_mm'' of None \<Rightarrow> Inl RequestValidationError
      | Some bl \<Rightarrow>
     (case float_field b ''bill_depth_mm'' of None \<Rightarrow> Inl RequestValidationError
      | Some bd \<Rightarrow>
     (case float_field b ''flipper_length_mm'' of None \<Rightarrow> Inl RequestValidationError
      | Some fl \<Rightarrow>
     (case float_field b ''body_mass_g'' of None \<Rightarrow> Inl RequestValidationError
      | Some bm \<Rightarrow>
        Inr \<lparr>bill_length_mm = bl, bill_depth_mm = bd,
             flipper_length_mm = fl, body_mass_g = bm\<rparr>))))"

text \<open>The route \<open>@app.post("/predict")\<close>: validation, then the handler.\<close>

definition post_predict :: "body \<Rightarrow> http_error + PredictionResponse" where
  "post_predict b =
     (case parse_PenguinFeatures b of
        Inl e \<Rightarrow> Inl e
      | Inr features \<Rightarrow> predict_penguin_species features)"



text \<open>The names of the declared fields.\<close>

definition declared_fields :: "string list" where
  "declared_fields =
     [''bill_length_mm'', ''bill_depth_mm'', ''flipper_length_mm'', ''body_mass_g'']"

text \<open>The request of \<open>test_predict_valid_input\<close>.\<close>

definition sample_data :: body where
  "sample_data =
     [''bill_length_mm'' \<mapsto> Numeric (Finite 39.1),
      ''bill_depth_mm'' \<mapsto> Numeric (Finite 18.7),
      ''flipper_length_mm'' \<mapsto> Numeric (Finite 181),
      ''body_mass_g'' \<mapsto> Numeric (Finite 3750)]"

definition sample_features :: PenguinFeatures where
  "sample_features =
     \<lparr>bill_length_mm = Finite 39.1, bill_depth_mm = Finite 18.7,
      flipper_length_mm = Finite 181, body_mass_g = Finite 3750\<rparr>"

section \<open>The training script: train_model_advanced.py\<close>

subsection \<open>Data frames\<close>

text \<open>
  A cell of a data frame: a missing value (NaN or None), a value that is present, or the
  indicator that one-hot encoding writes. The script never computes with a value: it tests
  cells for being missing, compares category values, sorts the label strings and builds
  column names from the text of category values, and hands the numbers to the library
  untouched. A present value is therefore kept as its text (Python's \<open>str\<close> of it).
\<close>

datatype cell = NA | Val string | Ind bool

text \<open>
  A frame: the column labels in order, and the rows, each holding one cell per column in
  the order of the labels.
\<close>

record dataframe =
  columns :: "string list"
  rows :: "cell list list"

text \<open>
  \<open>KeyError\<close>: a column label that the frame does not have. \<open>LibraryError\<close>: whatever
  \<open>train_test_split\<close>, \<open>XGBClassifier.fit\<close> or \<open>model.score\<close> raise. The script defines no
  exception of its own and has no \<open>raise\<close> statement.
\<close>

datatype py_error = KeyError | LibraryError

text \<open>\<open>df.dropna()\<close>: the rows without any missing value, in their order; the same columns.\<close>

definition dropna :: "dataframe \<Rightarrow> dataframe" where
  "dropna df = df\<lparr>rows := filter (\<lambda>r. NA \<notin> set r) (rows df)\<rparr>"

text \<open>The cell of row \<open>r\<close> under the label \<open>c\<close>, for a frame with the labels \<open>cols\<close>.\<close>

definition cell_of :: "string list \<Rightarrow> cell list \<Rightarrow> string \<Rightarrow> cell" where
  "cell_of cols r c = (case map_of (zip cols r) c of Some v \<Rightarrow> v | None \<Rightarrow> NA)"

definition column_values :: "dataframe \<Rightarrow> string \<Rightarrow> cell list" where
  "column_values df c = map (\<lambda>r. cell_of (columns df) r c) (rows df)"

text \<open>\<open>df[c]\<close> for one label.\<close>

definition getitem :: "dataframe \<Rightarrow> string \<Rightarrow> py_error + cell list" where
  "getitem df c = (if c \<in> set (columns df) then Inr (column_values df c) else Inl KeyError)"

text \<open>\<open>df[cs]\<close> for a list of labels: the columns named, in the order of the list.\<close>

definition select_columns :: "dataframe \<Rightarrow> string list \<Rightarrow> py_error + dataframe" where
  "select_columns df cs =
     (if set cs \<subseteq> set (columns df) then
        Inr \<lparr>columns = cs, rows = map (\<lambda>r. map (cell_of (columns df) r) cs) (rows df)\<rparr>
      else Inl KeyError)"

fun cell_text :: "cell \<Rightarrow> string" where
  "cell_text (Val s) = s"
| "cell_text (Ind b) = (if b then ''True'' else ''False'')"
| "cell_text NA = ''nan''"

subsection \<open>One-hot encoding\<close>

text \<open>
  \<open>pd.get_dummies(df, columns=cs)\<close>. The levels of a column are its distinct values that
  are present, sorted; strings are ordered as Python orders them, character by character
  (the order of \<open>char list\<close>). Each listed column is replaced by one indicator column per
  level, named by the column, an underscore and the level; the indicator columns follow the
  columns that are kept, in the order of the list.
\<close>

definition levels :: "dataframe \<Rightarrow> string \<Rightarrow> string list" where
  "levels df c =
     sort (remdups (map cell_text (filter (\<lambda>v. v \<noteq> NA) (column_values df c))))"

definition dummy_names :: "dataframe \<Rightarrow> string \<Rightarrow> string list" where
  "dummy_names df c = map (\<lambda>l. c @ ''_'' @ l) (levels df c)"

definition dummy_cells :: "dataframe \<Rightarrow> cell list \<Rightarrow> string \<Rightarrow> cell list" where
  "dummy_cells df r c =
     map (\<lambda>l. Ind (cell_of (columns df) r c \<noteq> NA \<and> cell_text (cell_of (columns df) r c) = l))
       (levels df c)"

definition get_dummies :: "dataframe \<Rightarrow> string list \<Rightarrow> py_error + dataframe" where
  "get_dummies df cs =
     (if set cs \<subseteq> set (columns df) then
        let kept = filter (\<lambda>c. c \<notin> set cs) (columns df) in
        Inr \<lparr>columns = kept @ concat (map (dummy_names df) cs),
             rows = map (\<lambda>r. map (cell_of (columns df) r) kept @
                               concat (map (dummy_cells df r) cs)) (rows df)\<rparr>
      else Inl KeyError)"

subsection \<open>The label encoder\<close>

text \<open>The position of a label in the list of classes.\<close>

fun index_of :: "'a list \<Rightarrow> 'a \<Rightarrow> nat" where
  "index_of [] x = 0"
| "index_of (y # ys) x = (if x = y then 0 else Suc (index_of ys x))"

text \<open>
  \<open>LabelEncoder().fit_transform(labels)\<close>: \<open>classes_\<close> is the sorted list of the distinct
  labels, and each label is encoded as its position in \<open>classes_\<close>.
\<close>

definition fit_transform :: "cell list \<Rightarrow> string list \<times> nat list" where
  "fit_transform labels =
     (let classes = sort (remdups (map cell_text labels))
      in (classes, map (\<lambda>l. index_of classes (cell_text l)) labels))"

subsection \<open>The pipeline\<close>

text \<open>The list literal of lines 21 to 24.\<close>

definition feature_columns :: "string list" where
  "feature_columns =
     [''bill_length_mm'', ''bill_depth_mm'', ''flipper_length_mm'', ''body_mass_g'', ''year'',
      ''sex_female'', ''sex_male'', ''island_Biscoe'', ''island_Dream'', ''island_Torgersen'']"

text \<open>The dictionary \<open>model_info\<close> written to \<open>app/data/model_info.json\<close>.\<close>

record model_info =
  mi_feature_columns :: "string list"
  mi_species_classes :: "string list"
  mi_accuracy :: real

text \<open>
  Lines 32 to 42 are library code: the split with \<open>random_state=42\<close>, the fit of the
  classifier with \<open>random_state=42\<close> and its score on the held-out part. Together they
  are a function of \<open>X\<close> and \<open>y\<close>, taken as a parameter: \<open>learn X y\<close> is the fitted model
  with its accuracy, or \<open>None\<close> when one of the three calls raises.
\<close>

type_synonym 'm learner = "dataframe \<Rightarrow> nat list \<Rightarrow> ('m \<times> real) option"

text \<open>
  \<open>train_advanced_model\<close>, with the frame that \<open>sns.load_dataset("penguins")\<close> returns as
  an argument. The result is what the script saves: the model and \<open>model_info\<close>. The
  writes to \<open>app/data\<close> and the prints are left out.
\<close>

definition train_advanced_model ::
    "'m learner \<Rightarrow> dataframe \<Rightarrow> py_error + 'm \<times> model_info" where
  "train_advanced_model learn penguins =
     (let df = dropna penguins in
      case get_dummies df [''sex'', ''island''] of Inl e \<Rightarrow> Inl e
      | Inr df_encoded \<Rightarrow>
     (case getitem df ''species'' of Inl e \<Rightarrow> Inl e
      | Inr labels \<Rightarrow>
     (case fit_transform labels of (classes, y) \<Rightarrow>
     (case select_columns df_encoded feature_columns of Inl e \<Rightarrow> Inl e
      | Inr X \<Rightarrow>
     (case learn X y of None \<Rightarrow> Inl LibraryError
      | Some (model, accuracy) \<Rightarrow>
        Inr (model, \<lparr>mi_feature_columns = feature_columns,
                     mi_species_classes = classes,
                     mi_accuracy = accuracy\<rparr>))))))"

text \<open>
  Things the pipeline computes on the way, named to state properties: the column labels
  present after line 18 has encoded the cleaned frame; the labels of the cleaned frame,
  which line 28 gives to the encoder; and the arguments \<open>X\<close> and \<open>y\<close> that lines 28 and 29
  prepare for the library step.
\<close>

definition encoded_column_names :: "dataframe \<Rightarrow> py_error + string list" where
  "encoded_column_names penguins =
     (case get_dummies (dropna penguins) [''sex'', ''island''] of
        Inl e \<Rightarrow> Inl e
      | Inr df_encoded \<Rightarrow> Inr (columns df_encoded))"

definition cleaned_species_labels :: "dataframe \<Rightarrow> string list" where
  "cleaned_species_labels penguins =
     map cell_text (column_values (dropna penguins) ''species'')"

definition training_input :: "dataframe \<Rightarrow> py_error + dataframe \<times> nat list" where
  "training_input penguins =
     (let df = dropna penguins in
      case get_dummies df [''sex'', ''island''] of Inl e \<Rightarrow> Inl e
      | Inr df_encoded \<Rightarrow>
     (case getitem df ''species'' of Inl e \<Rightarrow> Inl e
      | Inr labels \<Rightarrow>
     (case select_columns df_encoded feature_columns of Inl e \<Rightarrow> Inl e
      | Inr X \<Rightarrow> Inr (X, snd (fit_transform labels)))))"

subsection \<open>Concrete inputs\<close>

text \<open>A library step that returns a model with an accuracy, whatever it is given.\<close>

definition fit_returns :: "'m \<Rightarrow> real \<Rightarrow> 'm learner" where
  "fit_returns model accuracy X y = Some (model, accuracy)"

text \<open>
  The library step as far as the number of classes decides it. The script passes
  \<open>objective='multi:softprob'\<close>, and the classifier sets the number of classes of that
  objective only when it finds more than two: with fewer than three classes in \<open>y\<close> the
  fit raises. Otherwise the step is taken to return the given model and accuracy. The
  held-out part of \<open>n\<close> records has a fifth of them, rounded up. In the frames
  \<open>penguins12\<close>, \<open>penguins12_anvers\<close>, \<open>no_adelie12\<close>, \<open>labels_a\<close> and \<open>labels_b\<close> below, the
  complete records have three classes and every class has more records than the held-out
  part takes, so every class reaches the fit.
\<close>

definition fit_multiclass :: "'m \<Rightarrow> real \<Rightarrow> 'm learner" where
  "fit_multiclass model accuracy X y =
     (if length (remdups y) < 3 then None else Some (model, accuracy))"

definition penguin_columns :: "string list" where
  "penguin_columns =
     [''species'', ''island'', ''bill_length_mm'', ''bill_depth_mm'', ''flipper_length_mm'',
      ''body_mass_g'', ''sex'', ''year'']"

text \<open>Four records of three species; the second one lacks its measurements and its sex.\<close>

definition penguins_small :: dataframe where
  "penguins_small =
     \<lparr>columns = penguin_columns,
      rows =
       [[Val ''Adelie'', Val ''Torgersen'', Val ''39.1'', Val ''18.7'', Val ''181.0'',
         Val ''3750.0'', Val ''male'', Val ''2007''],
        [Val ''Adelie'', Val ''Torgersen'', NA, NA, NA, NA, NA, Val ''2007''],
        [Val ''Gentoo'', Val ''Biscoe'', Val ''46.1'', Val ''13.2'', Val ''211.0'',
         Val ''4500.0'', Val ''female'', Val ''2007''],
        [Val ''Chinstrap'', Val ''Dream'', Val ''46.5'', Val ''17.9'', Val ''192.0'',
         Val ''3500.0'', Val ''female'', Val ''2007'']]\<rparr>"

text \<open>Three complete records of one species, from the three islands, of both sexes.\<close>

definition adelie_only :: dataframe where
  "adelie_only =
     \<lparr>columns = penguin_columns,
      rows =
       [[Val ''Adelie'', Val ''Torgersen'', Val ''39.1'', Val ''18.7'', Val ''181.0'',
         Val ''3750.0'', Val ''male'', Val ''2007''],
        [Val ''Adelie'', Val ''Biscoe'', Val ''37.8'', Val ''18.3'', Val ''174.0'',
         Val ''3400.0'', Val ''female'', Val ''2007''],
        [Val ''Adelie'', Val ''Dream'', Val ''39.5'', Val ''16.7'', Val ''178.0'',
         Val ''3250.0'', Val ''female'', Val ''2007'']]\<rparr>"

text \<open>One record, which lacks its measurements and its sex.\<close>

definition all_incomplete :: dataframe where
  "all_incomplete =
     \<lparr>columns = penguin_columns,
      rows =
       [[Val ''Adelie'', Val ''Torgersen'', NA, NA, NA,
         NA, NA, Val ''2007'']]\<rparr>"

text \<open>Twelve complete records: four of each of three species.\<close>

definition penguins12 :: dataframe where
  "penguins12 =
     \<lparr>columns = penguin_columns,
      rows =
       [[Val ''Adelie'', Val ''Torgersen'', Val ''39.1'', Val ''18.7'', Val ''181.0'',
         Val ''3750.0'', Val ''male'', Val ''2007''],
        [Val ''Adelie'', Val ''Biscoe'', Val ''37.8'', Val ''18.3'', Val ''174.0'',
         Val ''3400.0'', Val ''female'', Val ''2007''],
        [Val ''Adelie'', Val ''Dream'', Val ''39.5'', Val ''16.7'', Val ''178.0'',
         Val ''3250.0'', Val ''female'', Val ''2007''],
        [Val ''Adelie'', Val ''Torgersen'', Val ''38.9'', Val ''17.8'', Val ''181.0'',
         Val ''3625.0'', Val ''female'', Val ''2008''],
        [Val ''Chinstrap'', Val ''Dream'', Val ''46.5'', Val ''17.9'', Val ''192.0'',
         Val ''3500.0'', Val ''female'', Val ''2007''],
        [Val ''Chinstrap'', Val ''Dream'', Val ''50.0'', Val ''19.5'', Val ''196.0'',
         Val ''3900.0'', Val ''male'', Val ''2007''],
        [Val ''Chinstrap'', Val ''Dream'', Val ''51.3'', Val ''19.2'', Val ''193.0'',
         Val ''3650.0'', Val ''male'', Val ''2008''],
        [Val ''Chinstrap'', Val ''Dream'', Val ''45.4'', Val ''18.7'', Val ''188.0'',
         Val ''3525.0'', Val ''female'', Val ''2008''],
        [Val ''Gentoo'', Val ''Biscoe'', Val ''46.1'', Val ''13.2'', Val ''211.0'',
         Val ''4500.0'', Val ''female'', Val ''2007''],
        [Val ''Gentoo'', Val ''Biscoe'', Val ''50.0'', Val ''16.3'', Val ''230.0'',
         Val ''5700.0'', Val ''male'', Val ''2007''],
        [Val ''Gentoo'', Val ''Biscoe'', Val ''48.7'', Val ''14.1'', Val ''210.0'',
         Val ''4450.0'', Val ''female'', Val ''2008''],
        [Val ''Gentoo'', Val ''Biscoe'', Val ''50.0'', Val ''15.2'', Val ''218.0'',
         Val ''5700.0'', Val ''male'', Val ''2009'']]\<rparr>"

text \<open>The same twelve records, the fourth of them from a fourth island.\<close>

definition penguins12_anvers :: dataframe where
  "penguins12_anvers =
     \<lparr>columns = penguin_columns,
      rows =
       [[Val ''Adelie'', Val ''Torgersen'', Val ''39.1'', Val ''18.7'', Val ''181.0'',
         Val ''3750.0'', Val ''male'', Val ''2007''],
        [Val ''Adelie'', Val ''Biscoe'', Val ''37.8'', Val ''18.3'', Val ''174.0'',
         Val ''3400.0'', Val ''female'', Val ''2007''],
        [Val ''Adelie'', Val ''Dream'', Val ''39.5'', Val ''16.7'', Val ''178.0'',
         Val ''3250.0'', Val ''female'', Val ''2007''],
        [Val ''Adelie'', Val ''Anvers'', Val ''38.9'', Val ''17.8'', Val ''181.0'',
         Val ''3625.0'', Val ''female'', Val ''2008''],
        [Val ''Chinstrap'', Val ''Dream'', Val ''46.5'', Val ''17.9'', Val ''192.0'',
         Val ''3500.0'', Val ''female'', Val ''2007''],
        [Val ''Chinstrap'', Val ''Dream'', Val ''50.0'', Val ''19.5'', Val ''196.0'',
         Val ''3900.0'', Val ''male'', Val ''2007''],
        [Val ''Chinstrap'', Val ''Dream'', Val ''51.3'', Val ''19.2'', Val ''193.0'',
         Val ''3650.0'', Val ''male'', Val ''2008''],
        [Val ''Chinstrap'', Val ''Dream'', Val ''45.4'', Val ''18.7'', Val ''188.0'',
         Val ''3525.0'', Val ''female'', Val ''2008''],
        [Val ''Gentoo'', Val ''Biscoe'', Val ''46.1'', Val ''13.2'', Val ''211.0'',
         Val ''4500.0'', Val ''female'', Val ''2007''],
        [Val ''Gentoo'', Val ''Biscoe'', Val ''50.0'', Val ''16.3'', Val ''230.0'',
         Val ''5700.0'', Val ''male'', Val ''2007''],
        [Val ''Gentoo'', Val ''Biscoe'', Val ''48.7'', Val ''14.1'', Val ''210.0'',
         Val ''4450.0'', Val ''female'', Val ''2008''],
        [Val ''Gentoo'', Val ''Biscoe'', Val ''50.0'', Val ''15.2'', Val ''218.0'',
         Val ''5700.0'', Val ''male'', Val ''2009'']]\<rparr>"


text \<open>Ten records of four species; the one Macaroni record is incomplete.\<close>

definition labels_a :: dataframe where
  "labels_a =
     \<lparr>columns = penguin_columns,
      rows =
       [[Val ''Adelie'', Val ''Torgersen'', Val ''39.1'', Val ''18.7'', Val ''181.0'',
         Val ''3750.0'', Val ''male'', Val ''2007''],
        [Val ''Adelie'', Val ''Biscoe'', Val ''37.8'', Val ''18.3'', Val ''174.0'',
         Val ''3400.0'', Val ''female'', Val ''2007''],
        [Val ''Adelie'', Val ''Dream'', Val ''39.5'', Val ''16.7'', Val ''178.0'',
         Val ''3250.0'', Val ''female'', Val ''2007''],
        [Val ''Chinstrap'', Val ''Dream'', Val ''46.5'', Val ''17.9'', Val ''192.0'',
         Val ''3500.0'', Val ''female'', Val ''2007''],
        [Val ''Chinstrap'', Val ''Dream'', Val ''50.0'', Val ''19.5'', Val ''196.0'',
         Val ''3900.0'', Val ''male'', Val ''2007''],
        [Val ''Chinstrap'', Val ''Dream'', Val ''51.3'', Val ''19.2'', Val ''193.0'',
         Val ''3650.0'', Val ''male'', Val ''2008''],
        [Val ''Gentoo'', Val ''Biscoe'', Val ''46.1'', Val ''13.2'', Val ''211.0'',
         Val ''4500.0'', Val ''female'', Val ''2007''],
        [Val ''Gentoo'', Val ''Biscoe'', Val ''50.0'', Val ''16.3'', Val ''230.0'',
         Val ''5700.0'', Val ''male'', Val ''2007''],
        [Val ''Gentoo'', Val ''Biscoe'', Val ''48.7'', Val ''14.1'', Val ''210.0'',
         Val ''4450.0'', Val ''female'', Val ''2008''],
        [Val ''Macaroni'', Val ''Torgersen'', NA, NA, NA,
         NA, NA, Val ''2009'']]\<rparr>"

text \<open>Ten records of the same four species; the one Gentoo record is incomplete.\<close>

definition labels_b :: dataframe where
  "labels_b =
     \<lparr>columns = penguin_columns,
      rows =
       [[Val ''Adelie'', Val ''Torgersen'', Val ''39.1'', Val ''18.7'', Val ''181.0'',
         Val ''3750.0'', Val ''male'', Val ''2007''],
        [Val ''Adelie'', Val ''Biscoe'', Val ''37.8'', Val ''18.3'', Val ''174.0'',
         Val ''3400.0'', Val ''female'', Val ''2007''],
        [Val ''Adelie'', Val ''Dream'', Val ''39.5'', Val ''16.7'', Val ''178.0'',
         Val ''3250.0'', Val ''female'', Val ''2007''],
        [Val ''Chinstrap'', Val ''Dream'', Val ''46.5'', Val ''17.9'', Val ''192.0'',
         Val ''3500.0'', Val ''female'', Val ''2007''],
        [Val ''Chinstrap'', Val ''Dream'', Val ''50.0'', Val ''19.5'', Val ''196.0'',
         Val ''3900.0'', Val ''male'', Val ''2007''],
        [Val ''Chinstrap'', Val ''Dream'', Val ''51.3'', Val ''19.2'', Val ''193.0'',
         Val ''3650.0'', Val ''male'', Val ''2008''],
        [Val ''Macaroni'', Val ''Torgersen'', Val ''33.1'', Val ''16.1'', Val ''178.0'',
         Val ''2900.0'', Val ''female'', Val ''2007''],
        [Val ''Macaroni'', Val ''Torgersen'', Val ''35.7'', Val ''16.9'', Val ''185.0'',
         Val ''3150.0'', Val ''male'', Val ''2007''],
        [Val ''Macaroni'', Val ''Torgersen'', Val ''34.0'', Val ''17.1'', Val ''185.0'',
         Val ''3400.0'', Val ''female'', Val ''2008''],
        [Val ''Gentoo'', Val ''Biscoe'', NA, NA, NA,
         NA, NA, Val ''2009'']]\<rparr>"

text \<open>Three complete records in a table that has no column \<open>year\<close>.\<close>

definition penguins_no_year :: dataframe where
  "penguins_no_year =
     \<lparr>columns =
        [''species'', ''island'', ''bill_length_mm'', ''bill_depth_mm'',
         ''flipper_length_mm'', ''body_mass_g'', ''sex''],
      rows =
       [[Val ''Adelie'', Val ''Torgersen'', Val ''39.1'', Val ''18.7'', Val ''181.0'',
         Val ''3750.0'', Val ''male''],
        [Val ''Chinstrap'', Val ''Dream'', Val ''46.5'', Val ''17.9'', Val ''192.0'',
         Val ''3500.0'', Val ''female''],
        [Val ''Gentoo'', Val ''Biscoe'', Val ''46.1'', Val ''13.2'', Val ''211.0'',
         Val ''4500.0'', Val ''female'']]\<rparr>"

section \<open>Properties of the serving path\<close>




text \<open>
  C9. Two inputs with the same \<open>bill_length_mm\<close> and the same \<open>bill_depth_mm\<close> get the same
  response, whatever their \<open>flipper_length_mm\<close> and \<open>body_mass_g\<close> are: equal species,
  equal confidence (and equal message).
\<close>

theorem predict_ignores_flipper_and_mass:
  assumes "bill_length_mm f1 = bill_length_mm f2"
    and "bill_depth_mm f1 = bill_depth_mm f2"
  shows "predict_penguin_species f1 = predict_penguin_species f2"
  using assms by (simp add: predict_penguin_species_def mock_prediction_def)

theorem predict_ignores_flipper_and_mass_witness:
  "predict_penguin_species
      \<lparr>bill_length_mm = Finite 39.1, bill_depth_mm = Finite 18.7,
       flipper_length_mm = Finite 181, body_mass_g = Finite 3750\<rparr> =
   predict_penguin_species
      \<lparr>bill_length_mm = Finite 39.1, bill_depth_mm = Finite 18.7,
       flipper_length_mm = NaN, body_mass_g = Finite (- 5)\<rparr>"
  using predict_ignores_flipper_and_mass
    [of "\<lparr>bill_length_mm = Finite 39.1, bill_depth_mm = Finite 18.7,
           flipper_length_mm = Finite 181, body_mass_g = Finite 3750\<rparr>"
        "\<lparr>bill_length_mm = Finite 39.1, bill_depth_mm = Finite 18.7,
           flipper_length_mm = NaN, body_mass_g = Finite (- 5)\<rparr>"]
  by simp

text \<open>
  C10. Every input gets a response, and its (species, confidence) pair is ("Gentoo", 0.85)
  when \<open>bill_length_mm > 45\<close>, otherwise ("Adelie", 0.78) when \<open>bill_depth_mm > 18\<close>,
  otherwise ("Chinstrap", 0.82); so it is always one of these three pairs.
\<close>

theorem predict_three_outcomes:
  "\<exists>r. predict_penguin_species f = Inr r \<and>
     (float_gt (bill_length_mm f) 45 \<longrightarrow>
        (species r, confidence r) = (''Gentoo'', 0.85)) \<and>
     (\<not> float_gt (bill_length_mm f) 45 \<and> float_gt (bill_depth_mm f) 18 \<longrightarrow>
        (species r, confidence r) = (''Adelie'', 0.78)) \<and>
     (\<not> float_gt (bill_length_mm f) 45 \<and> \<not> float_gt (bill_depth_mm f) 18 \<longrightarrow>
        (species r, confidence r) = (''Chinstrap'', 0.82)) \<and>
     (species r, confidence r) \<in>
        {(''Gentoo'', 0.85), (''Adelie'', 0.78), (''Chinstrap'', 0.82)}"
  by (simp add: predict_penguin_species_def mock_prediction_def new_PredictionResponse_def)

theorem predict_three_outcomes_witness:
  "\<exists>r. predict_penguin_species sample_features = Inr r \<and>
     \<not> float_gt (bill_length_mm sample_features) 45 \<and>
     float_gt (bill_depth_mm sample_features) 18 \<and>
     (species r, confidence r) = (''Adelie'', 0.78)"
  using predict_three_outcomes [of sample_features]
  by (auto simp: sample_features_def)


lemma float_field_upd:
  "k \<noteq> f \<Longrightarrow> float_field (b(k \<mapsto> v)) f = float_field b f"
  by (simp add: float_field_def)




text \<open>
  C2, as amended. A request that carries a key which is not one of the four declared
  fields, such as \<open>sex\<close> with the value "unknown" or any other value, is validated and
  answered exactly as the same request without that key: the key is ignored, nothing is
  one-hot encoded, and no \<open>UnknownCategory\<close> error is raised.
\<close>

theorem extra_keys_ignored:
  assumes "k \<notin> set declared_fields"
  shows "parse_PenguinFeatures (b(k \<mapsto> v)) = parse_PenguinFeatures b \<and>
         post_predict (b(k \<mapsto> v)) = post_predict b"
proof -
  from assms have "k \<noteq> ''bill_length_mm''" "k \<noteq> ''bill_depth_mm''"
    "k \<noteq> ''flipper_length_mm''" "k \<noteq> ''body_mass_g''"
    by (auto simp: declared_fields_def)
  then have "parse_PenguinFeatures (b(k \<mapsto> v)) = parse_PenguinFeatures b"
    by (simp add: parse_PenguinFeatures_def float_field_upd cong: option.case_cong)
  then show ?thesis by (simp add: post_predict_def)
qed

theorem extra_keys_ignored_witness:
  "''sex'' \<notin> set declared_fields \<and>
   post_predict (sample_data(''sex'' \<mapsto> NonNumeric ''unknown'')) = post_predict sample_data"
proof -
  have h: "''sex'' \<notin> set declared_fields"
    by (simp add: declared_fields_def)
  from extra_keys_ignored [OF h, of sample_data "NonNumeric ''unknown''"] h
  show ?thesis by simp
qed

text \<open>
  The claim C2 as stated fails: the request of \<open>test_predict_valid_input\<close> with
  \<open>sex: "unknown"\<close> added gets a prediction.
\<close>

theorem unknown_category_counterexample:
  "post_predict (sample_data(''sex'' \<mapsto> NonNumeric ''unknown'')) =
     Inr \<lparr>species = ''Adelie'', confidence = 0.78, message = ''Prediction successful''\<rparr>"
  by (simp add: post_predict_def parse_PenguinFeatures_def float_field_def sample_data_def
      predict_penguin_species_def mock_prediction_def new_PredictionResponse_def)

text \<open>
  The confidence returned is one of the three literals of the handler, for every input;
  so it lies between 0 and 1.
\<close>

lemma confidence_in_unit_interval:
  "\<exists>response. predict_penguin_species features = Inr response \<and>
     confidence response \<in> {0.85, 0.78, 0.82} \<and>
     0 \<le> confidence response \<and> confidence response \<le> 1"
  by (simp add: predict_penguin_species_def mock_prediction_def new_PredictionResponse_def)

section \<open>Properties of the training script\<close>

lemma dropna_columns: "columns (dropna df) = columns df"
  by (simp add: dropna_def)

lemma dropna_rows: "rows (dropna df) = filter (\<lambda>r. NA \<notin> set r) (rows df)"
  by (simp add: dropna_def)

lemma dropna_idem: "dropna (dropna df) = dropna df"
  by (simp add: dropna_def)

lemma dropna_cong:
  assumes "columns p = columns p'"
    and "filter (\<lambda>r. NA \<notin> set r) (rows p) = filter (\<lambda>r. NA \<notin> set r) (rows p')"
  shows "dropna p = dropna p'"
  using assms by (simp add: dropna_def dataframe.equality)

lemma train_depends_on_dropna:
  "dropna p = dropna p' \<Longrightarrow> train_advanced_model learn p = train_advanced_model learn p'"
  by (simp add: train_advanced_model_def)

text \<open>
  C7. \<open>dropna\<close> removes every record with a missing value in any column, the feature and
  label columns among them, before anything is encoded or fitted. The records kept are
  records of the input, unchanged and in their order, and none of them has a missing
  value: nothing is imputed. The result of training is the result of training on the
  cleaned frame, and two frames with the same columns and the same complete records give
  the same model, schema and labels: a dropped record has no influence.
\<close>

theorem dropna_excludes_incomplete:
  "(\<forall>r \<in> set (rows penguins). NA \<in> set r \<longrightarrow> r \<notin> set (rows (dropna penguins))) \<and>
   (\<forall>r \<in> set (rows (dropna penguins)). NA \<notin> set r \<and> r \<in> set (rows penguins)) \<and>
   rows (dropna penguins) = filter (\<lambda>r. NA \<notin> set r) (rows penguins) \<and>
   columns (dropna penguins) = columns penguins \<and>
   train_advanced_model learn penguins = train_advanced_model learn (dropna penguins) \<and>
   (columns penguins = columns other \<and>
    filter (\<lambda>r. NA \<notin> set r) (rows penguins) = filter (\<lambda>r. NA \<notin> set r) (rows other) \<longrightarrow>
    train_advanced_model learn penguins = train_advanced_model learn other)"
proof -
  have "train_advanced_model learn penguins = train_advanced_model learn (dropna penguins)"
    by (rule train_depends_on_dropna) (simp add: dropna_idem)
  moreover have "train_advanced_model learn penguins = train_advanced_model learn other"
    if "columns penguins = columns other"
      and "filter (\<lambda>r. NA \<notin> set r) (rows penguins) = filter (\<lambda>r. NA \<notin> set r) (rows other)"
    using that by (intro train_depends_on_dropna dropna_cong)
  ultimately show ?thesis
    by (simp add: dropna_rows dropna_columns)
qed

theorem dropna_excludes_incomplete_witness:
  "[Val ''Adelie'', Val ''Torgersen'', NA, NA, NA, NA, NA, Val ''2007'']
      \<in> set (rows penguins_small) \<and>
   [Val ''Adelie'', Val ''Torgersen'', NA, NA, NA, NA, NA, Val ''2007'']
      \<notin> set (rows (dropna penguins_small)) \<and>
   length (rows (dropna penguins_small)) = 3 \<and>
   train_advanced_model (fit_returns () 1) penguins_small =
     train_advanced_model (fit_returns () 1) (dropna penguins_small)"
proof -
  note t = dropna_excludes_incomplete
      [of penguins_small "fit_returns () 1" "dropna penguins_small"]
  have a: "[Val ''Adelie'', Val ''Torgersen'', NA, NA, NA, NA, NA, Val ''2007'']
          \<in> set (rows penguins_small)"
    by (simp add: penguins_small_def)
  have b: "[Val ''Adelie'', Val ''Torgersen'', NA, NA, NA, NA, NA, Val ''2007'']
          \<notin> set (rows (dropna penguins_small))"
    using t [THEN conjunct1] a by fastforce
  have c: "length (rows (dropna penguins_small)) = 3"
    by (simp add: penguins_small_def dropna_def)
  have d: "train_advanced_model (fit_returns () 1) penguins_small =
     train_advanced_model (fit_returns () 1) (dropna penguins_small)"
    using t [THEN conjunct2, THEN conjunct2, THEN conjunct2, THEN conjunct2, THEN conjunct1] .
  from a b c d show ?thesis by blast
qed

text \<open>
  The definitions that a run on a concrete frame unfolds.
\<close>

lemmas frame_defs =
  dropna_def get_dummies_def getitem_def fit_transform_def select_columns_def
  column_values_def cell_of_def levels_def dummy_names_def dummy_cells_def
  penguin_columns_def feature_columns_def encoded_column_names_def
  cleaned_species_labels_def training_input_def

text \<open>The pipeline is the preparation of \<open>X\<close> and \<open>y\<close>, then the library step.\<close>

lemma train_by_training_input:
  "train_advanced_model learn p =
     (case training_input p of
        Inl e \<Rightarrow> Inl e
      | Inr (X, y) \<Rightarrow>
          (case learn X y of
             None \<Rightarrow> Inl LibraryError
           | Some (model, accuracy) \<Rightarrow>
               Inr (model, \<lparr>mi_feature_columns = feature_columns,
                            mi_species_classes = sort (remdups (cleaned_species_labels p)),
                            mi_accuracy = accuracy\<rparr>)))"
  by (auto simp: train_advanced_model_def training_input_def Let_def fit_transform_def
      getitem_def cleaned_species_labels_def split: sum.splits option.splits prod.splits)

lemma training_input_KeyError: "training_input p = Inl e \<Longrightarrow> e = KeyError"
  by (auto simp: training_input_def Let_def get_dummies_def getitem_def select_columns_def
      split: sum.splits if_splits)

lemma training_input_Inr_iff:
  "(\<exists>X y. training_input p = Inr (X, y)) \<longleftrightarrow>
     ''species'' \<in> set (columns p) \<and>
     (\<exists>cs. encoded_column_names p = Inr cs \<and> set feature_columns \<subseteq> set cs)"
  by (auto simp: training_input_def Let_def encoded_column_names_def getitem_def
      select_columns_def dropna_columns split: sum.splits if_splits)

lemma training_input_labels:
  "training_input p = Inr (X, y) \<Longrightarrow>
     y = map (index_of (sort (remdups (cleaned_species_labels p)))) (cleaned_species_labels p)"
  by (auto simp: training_input_def Let_def getitem_def fit_transform_def
      cleaned_species_labels_def comp_def split: sum.splits if_splits)

text \<open>
  What a successful run has saved, and what it has passed on the way.
\<close>

lemma train_Inr_info:
  assumes "train_advanced_model learn p = Inr (model, info)"
  shows "mi_feature_columns info = feature_columns"
    and "mi_species_classes info = sort (remdups (cleaned_species_labels p))"
    and "\<exists>cs. encoded_column_names p = Inr cs \<and> set feature_columns \<subseteq> set cs"
    and "''species'' \<in> set (columns p)"
proof -
  from assms obtain X y where ti: "training_input p = Inr (X, y)"
    by (auto simp: train_by_training_input split: sum.splits)
  from assms ti show "mi_feature_columns info = feature_columns"
    and "mi_species_classes info = sort (remdups (cleaned_species_labels p))"
    by (auto simp: train_by_training_input split: option.splits)
  from ti training_input_Inr_iff [of p]
  show "\<exists>cs. encoded_column_names p = Inr cs \<and> set feature_columns \<subseteq> set cs"
    and "''species'' \<in> set (columns p)"
    by blast+
qed

lemma train_success:
  assumes "training_input p = Inr (X, y)" and "learn X y = Some (model, accuracy)"
  shows "train_advanced_model learn p =
           Inr (model, \<lparr>mi_feature_columns = feature_columns,
                        mi_species_classes = sort (remdups (cleaned_species_labels p)),
                        mi_accuracy = accuracy\<rparr>)"
  using assms by (simp add: train_by_training_input)

lemma train_penguins12:
  "train_advanced_model (fit_multiclass () 1) penguins12 =
     Inr ((), \<lparr>mi_feature_columns = feature_columns,
               mi_species_classes = [''Adelie'', ''Chinstrap'', ''Gentoo''],
               mi_accuracy = 1\<rparr>)"
  by (simp add: train_advanced_model_def fit_multiclass_def penguins12_def frame_defs)

lemma train_penguins12_anvers:
  "train_advanced_model (fit_multiclass () 1) penguins12_anvers =
     Inr ((), \<lparr>mi_feature_columns = feature_columns,
               mi_species_classes = [''Adelie'', ''Chinstrap'', ''Gentoo''],
               mi_accuracy = 1\<rparr>)"
  by (simp add: train_advanced_model_def fit_multiclass_def penguins12_anvers_def frame_defs)

lemma encoded_penguins12:
  "encoded_column_names penguins12 = Inr (''species'' # feature_columns)"
  by (simp add: penguins12_def frame_defs)

lemma training_input_penguins12:
  "\<exists>X. training_input penguins12 = Inr (X, [0, 0, 0, 0, 1, 1, 1, 1, 2, 2, 2, 2])"
  by (simp add: penguins12_def frame_defs)

lemma training_input_penguins12_anvers:
  "\<exists>X. training_input penguins12_anvers = Inr (X, [0, 0, 0, 0, 1, 1, 1, 1, 2, 2, 2, 2])"
  by (simp add: penguins12_anvers_def frame_defs)

text \<open>
  C3, as amended. The schema saved as \<open>feature_columns\<close> is the list literal of ten names
  written in the script, whatever the data. When a run succeeds, each of the ten names is
  among the column names present after one-hot encoding the cleaned frame; a run on a frame
  whose encoded columns lack one of the ten names ends in \<open>KeyError\<close> and saves nothing.
  Encoded columns outside the literal are not in the schema.
\<close>

theorem schema_is_literal:
  "(train_advanced_model learn penguins = Inr (model, info) \<longrightarrow>
      mi_feature_columns info = feature_columns \<and>
      (\<exists>cs. encoded_column_names penguins = Inr cs \<and> set feature_columns \<subseteq> set cs)) \<and>
   ((\<forall>cs. encoded_column_names penguins = Inr cs \<longrightarrow> \<not> set feature_columns \<subseteq> set cs) \<longrightarrow>
      train_advanced_model learn penguins = Inl KeyError)"
proof -
  have "train_advanced_model learn penguins = Inl KeyError"
    if "\<forall>cs. encoded_column_names penguins = Inr cs \<longrightarrow> \<not> set feature_columns \<subseteq> set cs"
  proof -
    from that training_input_Inr_iff [of penguins]
    have "\<not> (\<exists>X y. training_input penguins = Inr (X, y))" by blast
    then obtain e where "training_input penguins = Inl e"
      by (cases "training_input penguins") auto
    with training_input_KeyError [of penguins e]
    show ?thesis by (simp add: train_by_training_input)
  qed
  with train_Inr_info(1,3) [of learn penguins model info] show ?thesis by blast
qed

theorem schema_is_literal_witness:
  "train_advanced_model (fit_multiclass () 1) penguins12 =
     Inr ((), \<lparr>mi_feature_columns = feature_columns,
               mi_species_classes = [''Adelie'', ''Chinstrap'', ''Gentoo''],
               mi_accuracy = 1\<rparr>) \<and>
   encoded_column_names penguins12 = Inr (''species'' # feature_columns) \<and>
   encoded_column_names penguins_no_year =
     Inr [''species'', ''bill_length_mm'', ''bill_depth_mm'', ''flipper_length_mm'',
          ''body_mass_g'', ''sex_female'', ''sex_male'', ''island_Biscoe'', ''island_Dream'',
          ''island_Torgersen''] \<and>
   train_advanced_model (fit_multiclass () 1) penguins_no_year = Inl KeyError"
proof -
  have e: "encoded_column_names penguins_no_year =
     Inr [''species'', ''bill_length_mm'', ''bill_depth_mm'', ''flipper_length_mm'',
          ''body_mass_g'', ''sex_female'', ''sex_male'', ''island_Biscoe'', ''island_Dream'',
          ''island_Torgersen'']"
    by (simp add: penguins_no_year_def frame_defs)
  have "\<forall>cs. encoded_column_names penguins_no_year = Inr cs \<longrightarrow>
          \<not> set feature_columns \<subseteq> set cs"
    by (simp add: e feature_columns_def)
  with schema_is_literal [of "fit_multiclass () 1" penguins_no_year, THEN conjunct2]
  have k: "train_advanced_model (fit_multiclass () 1) penguins_no_year = Inl KeyError"
    by blast
  from schema_is_literal [of "fit_multiclass () 1" penguins12 "()", THEN conjunct1]
    train_penguins12 encoded_penguins12 e k
  show ?thesis by simp
qed

text \<open>
  The claim C3 as stated fails: with a record from a fourth island the encoded frame has
  the column \<open>island_Anvers\<close>, and the schema saved is still the literal, without it.
\<close>

theorem schema_not_enumerated_counterexample:
  "encoded_column_names penguins12_anvers =
     Inr [''species'', ''bill_length_mm'', ''bill_depth_mm'', ''flipper_length_mm'',
          ''body_mass_g'', ''year'', ''sex_female'', ''sex_male'', ''island_Anvers'',
          ''island_Biscoe'', ''island_Dream'', ''island_Torgersen''] \<and>
   train_advanced_model (fit_multiclass () 1) penguins12_anvers =
     Inr ((), \<lparr>mi_feature_columns =
                 [''bill_length_mm'', ''bill_depth_mm'', ''flipper_length_mm'',
                  ''body_mass_g'', ''year'', ''sex_female'', ''sex_male'', ''island_Biscoe'',
                  ''island_Dream'', ''island_Torgersen''],
               mi_species_classes = [''Adelie'', ''Chinstrap'', ''Gentoo''],
               mi_accuracy = 1\<rparr>)"
proof -
  have "encoded_column_names penguins12_anvers =
     Inr [''species'', ''bill_length_mm'', ''bill_depth_mm'', ''flipper_length_mm'',
          ''body_mass_g'', ''year'', ''sex_female'', ''sex_male'', ''island_Anvers'',
          ''island_Biscoe'', ''island_Dream'', ''island_Torgersen'']"
    by (simp add: penguins12_anvers_def frame_defs)
  then show ?thesis
    by (simp add: train_penguins12_anvers feature_columns_def)
qed

lemma length_remdups_map_le: "length (remdups (map f xs)) \<le> length (remdups xs)"
  by (simp add: length_remdups_card_conv card_image_le)

text \<open>
  C6, as amended. When fewer than two distinct label classes remain after cleaning, the
  run fails and saves no artifact, but not with an error of its own: the script counts no
  classes and defines no \<open>InsufficientClasses\<close>. It ends in \<open>KeyError\<close> when the frame lacks the
  column \<open>species\<close> or its encoded columns lack a name of the literal, as they do when no
  record remains; otherwise it ends in the error that the library raises in the fit,
  which rejects fewer than three classes under the objective \<open>multi:softprob\<close>.
\<close>

theorem few_classes_fail_in_library:
  assumes "\<forall>X y. length (remdups y) < 3 \<longrightarrow> learn X y = None"
    and "length (remdups (cleaned_species_labels penguins)) < 2"
  shows "train_advanced_model learn penguins =
           (if ''species'' \<in> set (columns penguins) \<and>
               (\<exists>cs. encoded_column_names penguins = Inr cs \<and> set feature_columns \<subseteq> set cs)
            then Inl LibraryError else Inl KeyError)"
proof (cases "training_input penguins")
  case (Inl e)
  with training_input_Inr_iff [of penguins]
  have "\<not> (''species'' \<in> set (columns penguins) \<and>
     (\<exists>cs. encoded_column_names penguins = Inr cs \<and> set feature_columns \<subseteq> set cs))"
    by auto
  with Inl training_input_KeyError [of penguins e] show ?thesis
    by (simp add: train_by_training_input)
next
  case (Inr Xy)
  obtain X y where Xy: "Xy = (X, y)" by (cases Xy)
  with Inr have ti: "training_input penguins = Inr (X, y)" by simp
  with training_input_Inr_iff [of penguins]
  have cond: "''species'' \<in> set (columns penguins) \<and>
     (\<exists>cs. encoded_column_names penguins = Inr cs \<and> set feature_columns \<subseteq> set cs)"
    by blast
  have "length (remdups y) \<le> length (remdups (cleaned_species_labels penguins))"
    unfolding training_input_labels [OF ti] by (rule length_remdups_map_le)
  with assms(2) have "length (remdups y) < 3" by simp
  with assms(1) have "learn X y = None" by blast
  with ti cond show ?thesis
    by (simp add: train_by_training_input)
qed

theorem few_classes_fail_in_library_witness:
  "cleaned_species_labels all_incomplete = [] \<and>
   train_advanced_model (fit_multiclass () 1) all_incomplete = Inl KeyError \<and>
   remdups (cleaned_species_labels adelie_only) = [''Adelie''] \<and>
   train_advanced_model (fit_multiclass () 1) adelie_only = Inl LibraryError"
proof -
  have lib: "\<forall>X y. length (remdups y) < 3 \<longrightarrow> fit_multiclass () 1 X y = None"
    by (simp add: fit_multiclass_def)
  have l0: "cleaned_species_labels all_incomplete = []"
    by (simp add: all_incomplete_def frame_defs)
  have few0: "length (remdups (cleaned_species_labels all_incomplete)) < 2"
    by (simp add: l0)
  have e0: "encoded_column_names all_incomplete =
     Inr [''species'', ''bill_length_mm'', ''bill_depth_mm'', ''flipper_length_mm'',
          ''body_mass_g'', ''year'']"
    by (simp add: all_incomplete_def frame_defs)
  have k: "train_advanced_model (fit_multiclass () 1) all_incomplete = Inl KeyError"
    using few_classes_fail_in_library [OF lib few0]
    by (simp add: e0 feature_columns_def)
  have l1: "remdups (cleaned_species_labels adelie_only) = [''Adelie'']"
    by (simp add: adelie_only_def frame_defs)
  have few1: "length (remdups (cleaned_species_labels adelie_only)) < 2"
    by (simp add: l1)
  have e1: "encoded_column_names adelie_only = Inr (''species'' # feature_columns)"
    by (simp add: adelie_only_def frame_defs)
  have s1: "''species'' \<in> set (columns adelie_only)"
    by (simp add: adelie_only_def penguin_columns_def)
  have "set feature_columns \<subseteq> set (''species'' # feature_columns)"
    by auto
  with few_classes_fail_in_library [OF lib few1] e1 s1
  have f: "train_advanced_model (fit_multiclass () 1) adelie_only = Inl LibraryError"
    by simp
  from l0 k l1 f show ?thesis by blast
qed

text \<open>
  The claim C6 as stated fails in the error it names: on three complete records of the
  single species Adelie the run ends in the error raised by the library step.
\<close>

theorem one_class_counterexample:
  "cleaned_species_labels adelie_only = [''Adelie'', ''Adelie'', ''Adelie''] \<and>
   train_advanced_model (fit_multiclass () 1) adelie_only = Inl LibraryError"
  by (simp add: train_advanced_model_def fit_multiclass_def adelie_only_def frame_defs)

lemma sort_remdups_set_cong:
  "set xs = set ys \<Longrightarrow> sort (remdups xs) = sort (remdups (ys :: 'a::linorder list))"
  by (simp add: sorted_list_of_set_sort_remdups [symmetric])

lemma index_of_nth: "x \<in> set xs \<Longrightarrow> xs ! index_of xs x = x"
  by (induction xs) auto

lemma decode_labels:
  "map ((!) (sort (remdups xs))) (map (index_of (sort (remdups xs))) xs) = xs"
  by (simp add: index_of_nth map_idI)

text \<open>
  C8, as amended. The label list saved is the sorted list of the distinct labels of the
  complete records, those left after cleaning. Two runs that reach the library step and
  get a model back, on frames whose complete records have the same set of labels, save
  the same list; its entries ascend strictly in the order of strings and are exactly the
  labels that occur; and the index given to each record is the position of its label in
  the list.
\<close>

theorem label_encoding_sorted_deterministic:
  assumes "training_input penguins_a = Inr (X_a, y_a)"
    and "learn_a X_a y_a = Some (model_a, accuracy_a)"
    and "training_input penguins_b = Inr (X_b, y_b)"
    and "learn_b X_b y_b = Some (model_b, accuracy_b)"
    and "set (cleaned_species_labels penguins_a) = set (cleaned_species_labels penguins_b)"
  shows "\<exists>classes.
           train_advanced_model learn_a penguins_a =
             Inr (model_a, \<lparr>mi_feature_columns = feature_columns,
                           mi_species_classes = classes, mi_accuracy = accuracy_a\<rparr>) \<and>
           train_advanced_model learn_b penguins_b =
             Inr (model_b, \<lparr>mi_feature_columns = feature_columns,
                           mi_species_classes = classes, mi_accuracy = accuracy_b\<rparr>) \<and>
           sorted_wrt (<) classes \<and>
           set classes = set (cleaned_species_labels penguins_a) \<and>
           map ((!) classes) y_a = cleaned_species_labels penguins_a \<and>
           map ((!) classes) y_b = cleaned_species_labels penguins_b"
proof -
  let ?c1 = "sort (remdups (cleaned_species_labels penguins_a))"
  let ?c2 = "sort (remdups (cleaned_species_labels penguins_b))"
  have same: "?c2 = ?c1"
    by (rule sort_remdups_set_cong [OF assms(5) [symmetric]])
  have t1: "train_advanced_model learn_a penguins_a =
             Inr (model_a, \<lparr>mi_feature_columns = feature_columns,
                           mi_species_classes = ?c1, mi_accuracy = accuracy_a\<rparr>)"
    by (rule train_success [where learn = learn_a, OF assms(1,2)])
  have t2: "train_advanced_model learn_b penguins_b =
             Inr (model_b, \<lparr>mi_feature_columns = feature_columns,
                           mi_species_classes = ?c1, mi_accuracy = accuracy_b\<rparr>)"
    using train_success [where learn = learn_b, OF assms(3,4)] by (simp add: same)
  have strict: "sorted_wrt (<) ?c1"
    by (simp add: strict_sorted_iff)
  have members: "set ?c1 = set (cleaned_species_labels penguins_a)"
    by simp
  have d1: "map ((!) ?c1) y_a = cleaned_species_labels penguins_a"
    unfolding training_input_labels [OF assms(1)] by (rule decode_labels)
  have "map ((!) ?c2) y_b = cleaned_species_labels penguins_b"
    unfolding training_input_labels [OF assms(3)] by (rule decode_labels)
  then have d2: "map ((!) ?c1) y_b = cleaned_species_labels penguins_b"
    by (simp add: same)
  from t1 t2 strict members d1 d2 show ?thesis by blast
qed

theorem label_encoding_sorted_deterministic_witness:
  "cleaned_species_labels penguins12 =
     [''Adelie'', ''Adelie'', ''Adelie'', ''Adelie'',
      ''Chinstrap'', ''Chinstrap'', ''Chinstrap'', ''Chinstrap'',
      ''Gentoo'', ''Gentoo'', ''Gentoo'', ''Gentoo''] \<and>
   cleaned_species_labels penguins12_anvers = cleaned_species_labels penguins12 \<and>
   train_advanced_model (fit_multiclass () 1) penguins12 =
     Inr ((), \<lparr>mi_feature_columns = feature_columns,
               mi_species_classes = [''Adelie'', ''Chinstrap'', ''Gentoo''],
               mi_accuracy = 1\<rparr>) \<and>
   train_advanced_model (fit_multiclass () 1) penguins12_anvers =
     Inr ((), \<lparr>mi_feature_columns = feature_columns,
               mi_species_classes = [''Adelie'', ''Chinstrap'', ''Gentoo''],
               mi_accuracy = 1\<rparr>)"
proof -
  have l1: "cleaned_species_labels penguins12 =
     [''Adelie'', ''Adelie'', ''Adelie'', ''Adelie'',
      ''Chinstrap'', ''Chinstrap'', ''Chinstrap'', ''Chinstrap'',
      ''Gentoo'', ''Gentoo'', ''Gentoo'', ''Gentoo'']"
    by (simp add: penguins12_def frame_defs)
  have l2: "cleaned_species_labels penguins12_anvers = cleaned_species_labels penguins12"
    unfolding l1 by (simp add: penguins12_anvers_def frame_defs)
  obtain X1 where i1:
    "training_input penguins12 = Inr (X1, [0, 0, 0, 0, 1, 1, 1, 1, 2, 2, 2, 2])"
    using training_input_penguins12 by blast
  obtain X2 where i2:
    "training_input penguins12_anvers = Inr (X2, [0, 0, 0, 0, 1, 1, 1, 1, 2, 2, 2, 2])"
    using training_input_penguins12_anvers by blast
  have f1: "fit_multiclass () 1 X1 [0, 0, 0, 0, 1, 1, 1, 1, 2, 2, 2, 2] = Some ((), 1)"
    by (simp add: fit_multiclass_def)
  have f2: "fit_multiclass () 1 X2 [0, 0, 0, 0, 1, 1, 1, 1, 2, 2, 2, 2] = Some ((), 1)"
    by (simp add: fit_multiclass_def)
  have same: "set (cleaned_species_labels penguins12) =
      set (cleaned_species_labels penguins12_anvers)"
    by (simp add: l2)
  from label_encoding_sorted_deterministic
    [where learn_a = "fit_multiclass () 1" and learn_b = "fit_multiclass () 1",
     OF i1 f1 i2 f2 same]
  obtain classes where
    t1: "train_advanced_model (fit_multiclass () 1) penguins12 =
       Inr ((), \<lparr>mi_feature_columns = feature_columns,
                 mi_species_classes = classes, mi_accuracy = 1\<rparr>)"
    and t2: "train_advanced_model (fit_multiclass () 1) penguins12_anvers =
       Inr ((), \<lparr>mi_feature_columns = feature_columns,
                 mi_species_classes = classes, mi_accuracy = 1\<rparr>)"
    and s: "sorted_wrt (<) classes"
    and m: "set classes = set (cleaned_species_labels penguins12)"
    by blast
  from s have "sorted classes" "distinct classes"
    by (simp_all add: strict_sorted_iff)
  moreover have "sorted [''Adelie'', ''Chinstrap'', ''Gentoo'']"
    "distinct [''Adelie'', ''Chinstrap'', ''Gentoo'']"
    by simp_all
  moreover from m have "set classes = set [''Adelie'', ''Chinstrap'', ''Gentoo'']"
    unfolding l1 by auto
  ultimately have "classes = [''Adelie'', ''Chinstrap'', ''Gentoo'']"
    by (rule sorted_distinct_set_unique)
  with t1 t2 l1 l2 show ?thesis by simp
qed

text \<open>
  The claim C8 as stated fails: two frames with the same set of labels, each with one
  incomplete record of a different species, save different label lists.
\<close>

theorem same_raw_labels_counterexample:
  "set (column_values labels_a ''species'') = set (column_values labels_b ''species'') \<and>
   train_advanced_model (fit_multiclass () 1) labels_a =
     Inr ((), \<lparr>mi_feature_columns = feature_columns,
               mi_species_classes = [''Adelie'', ''Chinstrap'', ''Gentoo''],
               mi_accuracy = 1\<rparr>) \<and>
   train_advanced_model (fit_multiclass () 1) labels_b =
     Inr ((), \<lparr>mi_feature_columns = feature_columns,
               mi_species_classes = [''Adelie'', ''Chinstrap'', ''Macaroni''],
               mi_accuracy = 1\<rparr>)"
proof -
  have "column_values labels_a ''species'' =
      [Val ''Adelie'', Val ''Adelie'', Val ''Adelie'', Val ''Chinstrap'', Val ''Chinstrap'',
       Val ''Chinstrap'', Val ''Gentoo'', Val ''Gentoo'', Val ''Gentoo'', Val ''Macaroni'']"
    by (simp add: labels_a_def frame_defs)
  moreover have "column_values labels_b ''species'' =
      [Val ''Adelie'', Val ''Adelie'', Val ''Adelie'', Val ''Chinstrap'', Val ''Chinstrap'',
       Val ''Chinstrap'', Val ''Macaroni'', Val ''Macaroni'', Val ''Macaroni'', Val ''Gentoo'']"
    by (simp add: labels_b_def frame_defs)
  ultimately have raw: "set (column_values labels_a ''species'') =
      set (column_values labels_b ''species'')"
    by auto
  have a: "train_advanced_model (fit_multiclass () 1) labels_a =
     Inr ((), \<lparr>mi_feature_columns = feature_columns,
               mi_species_classes = [''Adelie'', ''Chinstrap'', ''Gentoo''],
               mi_accuracy = 1\<rparr>)"
    by (simp add: train_advanced_model_def fit_multiclass_def labels_a_def frame_defs)
  have b: "train_advanced_model (fit_multiclass () 1) labels_b =
     Inr ((), \<lparr>mi_feature_columns = feature_columns,
               mi_species_classes = [''Adelie'', ''Chinstrap'', ''Macaroni''],
               mi_accuracy = 1\<rparr>)"
    by (simp add: train_advanced_model_def fit_multiclass_def labels_b_def frame_defs)
  from raw a b show ?thesis by blast
qed

section \<open>The serving path against the artifact\<close>




end
